theory Spec2Isabelle
  imports Main "HOL-Library.Word"
begin

section \<open>Data model of shared\_ptr.h\<close>

text \<open>
  The header defines a polymorphic \<^verbatim>\<open>control_block\<close> with two \<^verbatim>\<open>std::size_t\<close>
  counters, three derived block classes, and the two handle classes \<^verbatim>\<open>shared_ptr\<close>
  and \<^verbatim>\<open>weak_ptr\<close>, each a pair \<^verbatim>\<open>(control_block *block, T *ptr)\<close>.

  Control blocks live on the C++ heap and are shared between handles, and an
  assignment may receive the very object it is called on, so both the blocks and the
  handle objects are kept in stores: a block is named by its address, a handle object by
  the index of the variable that holds it.  \<^verbatim>\<open>std::size_t\<close> is taken as 64 bits wide;
  \<^verbatim>\<open>ref++\<close> and \<^verbatim>\<open>ref--\<close> wrap around as word arithmetic does.  A raw \<^verbatim>\<open>T *\<close> is a
  number, \<open>0\<close> being \<^verbatim>\<open>nullptr\<close>; a \<^verbatim>\<open>control_block *\<close> is \<open>None\<close> for \<^verbatim>\<open>nullptr\<close>
  and \<open>Some a\<close> for the block at address \<open>a\<close>.  The element types of the templates
  and the conversions between them do not appear: they change no address and no count.
  The constructors of the managed type and a deleter are taken to return normally and
  to use no handle.  The destructor of a managed object destroys the data members of the
  object; those among them that are Weak Handles are part of the state
  (\<open>weak_members\<close>), and their destructors run inside \<^verbatim>\<open>destroy\<close>.  Members that are
  Shared Handles are not modelled.
\<close>

type_synonym size_t = "64 word"
type_synonym raw_ptr = nat

text \<open>The dynamic type of a block: which override of \<^verbatim>\<open>destroy\<close> it carries.\<close>

datatype variant = Default_block | Regular_block | Inplace_block

record control_block =
  ref :: size_t
  wref :: size_t
  variant :: variant
  obj :: raw_ptr

record handle =
  block :: "nat option"
  ptr :: raw_ptr

text \<open>
  Everything the code does besides writing fields is recorded, in order, in a trace:
  the calls of the four counting methods, the call of the virtual \<^verbatim>\<open>destroy\<close>, what
  \<^verbatim>\<open>destroy\<close> does to the managed object, a call of a deleter on a raw pointer, and
  \<^verbatim>\<open>delete this\<close>.
\<close>

datatype event =
    Inc nat
  | Dec nat
  | WInc nat
  | WDec nat
  | Destroy nat
  | Delete_obj raw_ptr
  | Call_deleter raw_ptr
  | Dtor_inplace raw_ptr
  | Delete_block nat

text \<open>
  \<open>weak_members s p\<close> lists the Weak Handle variables that are data members of the
  managed object at address \<open>p\<close>, in the order in which its destructor destroys them.
\<close>

record state =
  blocks :: "nat \<rightharpoonup> control_block"
  shared :: "nat \<Rightarrow> handle"
  weak :: "nat \<Rightarrow> handle"
  trace :: "event list"
  weak_members :: "raw_ptr \<Rightarrow> nat list"

text \<open>
  How a call ends: it returns, it leaves by an exception (\<^verbatim>\<open>std::bad_alloc\<close> thrown by
  \<^verbatim>\<open>new\<close>, the only exception of the header), the exception meets a \<^verbatim>\<open>noexcept\<close>
  boundary and \<^verbatim>\<open>std::terminate\<close> ends the program, or the call touches a block that was
  already deleted, which C++ leaves undefined.
\<close>

datatype 'a outcome = Returned 'a | Raised 'a | Terminated | Undefined_behaviour

fun and_then :: "'a outcome \<Rightarrow> ('a \<Rightarrow> 'a outcome) \<Rightarrow> 'a outcome" where
  "and_then (Returned s) f = f s"
| "and_then (Raised s) f = Raised s"
| "and_then Terminated f = Terminated"
| "and_then Undefined_behaviour f = Undefined_behaviour"

definition empty_handle :: handle where
  "empty_handle = \<lparr>block = None, ptr = 0\<rparr>"

section \<open>control\_block\<close>

text \<open>\<^verbatim>\<open>void inc(void) noexcept { ref++; }\<close>\<close>

definition cb_inc :: "nat \<Rightarrow> state \<Rightarrow> state outcome" where
  "cb_inc b s =
     (case blocks s b of
        None \<Rightarrow> Undefined_behaviour
      | Some cb \<Rightarrow>
          Returned (s\<lparr>blocks := (blocks s)(b \<mapsto> cb\<lparr>ref := ref cb + 1\<rparr>),
                      trace := trace s @ [Inc b]\<rparr>))"

text \<open>\<^verbatim>\<open>std::size_t use_count(void) const noexcept { return ref; }\<close>\<close>

definition cb_use_count :: "nat \<Rightarrow> state \<Rightarrow> size_t option" where
  "cb_use_count b s = (case blocks s b of None \<Rightarrow> None | Some cb \<Rightarrow> Some (ref cb))"

text \<open>\<^verbatim>\<open>void winc(void) noexcept { wref++; }\<close>\<close>

definition cb_winc :: "nat \<Rightarrow> state \<Rightarrow> state outcome" where
  "cb_winc b s =
     (case blocks s b of
        None \<Rightarrow> Undefined_behaviour
      | Some cb \<Rightarrow>
          Returned (s\<lparr>blocks := (blocks s)(b \<mapsto> cb\<lparr>wref := wref cb + 1\<rparr>),
                      trace := trace s @ [WInc b]\<rparr>))"

text \<open>\<^verbatim>\<open>void wdec(void) { if (--wref == 0 && ref == 0) delete this; }\<close>\<close>

definition cb_wdec :: "nat \<Rightarrow> state \<Rightarrow> state outcome" where
  "cb_wdec b s =
     (case blocks s b of
        None \<Rightarrow> Undefined_behaviour
      | Some cb \<Rightarrow>
          (let cb' = cb\<lparr>wref := wref cb - 1\<rparr>;
               s1 = s\<lparr>blocks := (blocks s)(b \<mapsto> cb'), trace := trace s @ [WDec b]\<rparr>
           in if wref cb' = 0 \<and> ref cb' = 0
              then Returned (s1\<lparr>blocks := (blocks s1)(b := None),
                                trace := trace s1 @ [Delete_block b]\<rparr>)
              else Returned s1))"

text \<open>
  \<^verbatim>\<open>~weak_ptr(void) { if (block != nullptr) block->wdec(); }\<close>, lines 300 to 304.  It
  stands here, before \<^verbatim>\<open>destroy\<close>, because the destructor of a managed object runs it
  for the members of the object.
\<close>

definition wp_dtor :: "nat \<Rightarrow> state \<Rightarrow> state outcome" where
  "wp_dtor i s = (case block (weak s i) of None \<Rightarrow> Returned s | Some b \<Rightarrow> cb_wdec b s)"

text \<open>The destructor of a managed object destroys its Weak Handle members, one by one.\<close>

fun release_members :: "nat list \<Rightarrow> state \<Rightarrow> state outcome" where
  "release_members [] s = Returned s"
| "release_members (w # ws) s = and_then (wp_dtor w s) (release_members ws)"

text \<open>
  The three overrides of \<^verbatim>\<open>destroy\<close>: \<^verbatim>\<open>delete obj\<close>, which on a null pointer does
  nothing and otherwise runs the destructor of the object;
  \<^verbatim>\<open>if (obj != nullptr) D::operator()(obj)\<close>; \<^verbatim>\<open>get_obj()->~T()\<close>, which runs the
  destructor of the embedded object.
\<close>

definition destroy :: "nat \<Rightarrow> control_block \<Rightarrow> state \<Rightarrow> state outcome" where
  "destroy b cb s =
     (let s1 = s\<lparr>trace := trace s @ [Destroy b]\<rparr>
      in case variant cb of
           Default_block \<Rightarrow>
             (let s2 = s1\<lparr>trace := trace s1 @ [Delete_obj (obj cb)]\<rparr>
              in if obj cb \<noteq> 0 then release_members (weak_members s2 (obj cb)) s2
                 else Returned s2)
         | Regular_block \<Rightarrow>
             (if obj cb \<noteq> 0 then Returned (s1\<lparr>trace := trace s1 @ [Call_deleter (obj cb)]\<rparr>)
              else Returned s1)
         | Inplace_block \<Rightarrow>
             (let s2 = s1\<lparr>trace := trace s1 @ [Dtor_inplace (obj cb)]\<rparr>
              in release_members (weak_members s2 (obj cb)) s2))"

text \<open>
  \<^verbatim>\<open>void dec(void) { ref--; if (ref != 0) return; destroy(); if (wref == 0) delete this; }\<close>
  The test of \<^verbatim>\<open>wref\<close> reads the block after \<^verbatim>\<open>destroy\<close> has returned: when the block
  was deleted in the meantime, the read is undefined.
\<close>

definition cb_dec :: "nat \<Rightarrow> state \<Rightarrow> state outcome" where
  "cb_dec b s =
     (case blocks s b of
        None \<Rightarrow> Undefined_behaviour
      | Some cb \<Rightarrow>
          (let cb' = cb\<lparr>ref := ref cb - 1\<rparr>;
               s1 = s\<lparr>blocks := (blocks s)(b \<mapsto> cb'), trace := trace s @ [Dec b]\<rparr>
           in if ref cb' \<noteq> 0 then Returned s1
              else and_then (destroy b cb' s1)
                     (\<lambda>s2. case blocks s2 b of
                             None \<Rightarrow> Undefined_behaviour
                           | Some cb2 \<Rightarrow>
                               if wref cb2 = 0
                               then Returned (s2\<lparr>blocks := (blocks s2)(b := None),
                                                 trace := trace s2 @ [Delete_block b]\<rparr>)
                               else Returned s2)))"

text \<open>
  \<^verbatim>\<open>new X(...)\<close> for a block class \<open>X\<close>.  The answer of \<^verbatim>\<open>operator new\<close> is an input:
  \<open>None\<close> when it throws \<^verbatim>\<open>std::bad_alloc\<close>, \<open>Some a\<close> when it hands out address \<open>a\<close>.
  The base class initialises \<^verbatim>\<open>ref = 1\<close> and \<^verbatim>\<open>wref = 0\<close>.
\<close>

definition new_block :: "nat option \<Rightarrow> variant \<Rightarrow> raw_ptr \<Rightarrow> state \<Rightarrow> (nat \<times> state) option" where
  "new_block alloc v p s =
     (case alloc of
        None \<Rightarrow> None
      | Some a \<Rightarrow>
          Some (a, s\<lparr>blocks := (blocks s)(a \<mapsto> \<lparr>ref = 1, wref = 0, variant = v, obj = p\<rparr>)\<rparr>))"

section \<open>shared\_ptr\<close>

definition set_sp_block :: "nat \<Rightarrow> nat option \<Rightarrow> state \<Rightarrow> state" where
  "set_sp_block i b s = s\<lparr>shared := (shared s)(i := (shared s i)\<lparr>block := b\<rparr>)\<rparr>"

definition set_sp_ptr :: "nat \<Rightarrow> raw_ptr \<Rightarrow> state \<Rightarrow> state" where
  "set_sp_ptr i p s = s\<lparr>shared := (shared s)(i := (shared s i)\<lparr>ptr := p\<rparr>)\<rparr>"

text \<open>\<^verbatim>\<open>void dec(void) { if (block != nullptr) block->dec(); }\<close>\<close>

definition sp_dec :: "nat \<Rightarrow> state \<Rightarrow> state outcome" where
  "sp_dec i s = (case block (shared s i) of None \<Rightarrow> Returned s | Some b \<Rightarrow> cb_dec b s)"

text \<open>\<^verbatim>\<open>shared_ptr(control_block *b, T *p) noexcept : block(b), ptr(p) {}\<close>\<close>

definition sp_ctor_raw :: "nat \<Rightarrow> nat option \<Rightarrow> raw_ptr \<Rightarrow> state \<Rightarrow> state" where
  "sp_ctor_raw i b p s = set_sp_ptr i p (set_sp_block i b s)"

text \<open>\<^verbatim>\<open>shared_ptr(void) noexcept : block(nullptr), ptr(nullptr) {}\<close>\<close>

definition sp_ctor_default :: "nat \<Rightarrow> state \<Rightarrow> state outcome" where
  "sp_ctor_default i s = Returned (set_sp_ptr i 0 (set_sp_block i None s))"

text \<open>\<^verbatim>\<open>shared_ptr(std::nullptr_t) noexcept : shared_ptr() {}\<close>\<close>

definition sp_ctor_nullptr :: "nat \<Rightarrow> state \<Rightarrow> state outcome" where
  "sp_ctor_nullptr i s = sp_ctor_default i s"

text \<open>
  \<^verbatim>\<open>explicit shared_ptr(Y *ptr) noexcept : block(new default_control_block(ptr)), ptr(ptr) {}\<close>
  The constructor is \<^verbatim>\<open>noexcept\<close>: an exception of \<^verbatim>\<open>new\<close> cannot leave it.
\<close>

definition sp_ctor_ptr :: "nat option \<Rightarrow> nat \<Rightarrow> raw_ptr \<Rightarrow> state \<Rightarrow> state outcome" where
  "sp_ctor_ptr alloc i p s =
     (case new_block alloc Default_block p s of
        None \<Rightarrow> Terminated
      | Some (a, s1) \<Rightarrow> Returned (set_sp_ptr i p (set_sp_block i (Some a) s1)))"

text \<open>
  \<^verbatim>\<open>shared_ptr(const shared_ptr<Y> &s, T *al) noexcept : block(s.block), ptr(al)
  { if (block != nullptr) block->inc(); }\<close>
\<close>

definition sp_ctor_alias :: "nat \<Rightarrow> nat \<Rightarrow> raw_ptr \<Rightarrow> state \<Rightarrow> state outcome" where
  "sp_ctor_alias i j al s =
     (let s1 = set_sp_ptr i al (set_sp_block i (block (shared s j)) s)
      in case block (shared s1 i) of None \<Rightarrow> Returned s1 | Some b \<Rightarrow> cb_inc b s1)"

text \<open>
  \<^verbatim>\<open>shared_ptr(Y *ptr, D deleter) try : block(new regular_control_block<T, D>(ptr,
  std::move(deleter))), ptr(ptr) {} catch (...) { deleter(ptr); throw; }\<close>
\<close>

definition sp_ctor_ptr_deleter :: "nat option \<Rightarrow> nat \<Rightarrow> raw_ptr \<Rightarrow> state \<Rightarrow> state outcome" where
  "sp_ctor_ptr_deleter alloc i p s =
     (case new_block alloc Regular_block p s of
        None \<Rightarrow> Raised (s\<lparr>trace := trace s @ [Call_deleter p]\<rparr>)
      | Some (a, s1) \<Rightarrow> Returned (set_sp_ptr i p (set_sp_block i (Some a) s1)))"

text \<open>
  \<^verbatim>\<open>shared_ptr(const shared_ptr &r) noexcept : block(r.block), ptr(r.ptr)
  { if (block != nullptr) block->inc(); }\<close>
\<close>

definition sp_ctor_copy :: "nat \<Rightarrow> nat \<Rightarrow> state \<Rightarrow> state outcome" where
  "sp_ctor_copy i j s =
     (let s1 = set_sp_ptr i (ptr (shared s j)) (set_sp_block i (block (shared s j)) s)
      in case block (shared s1 i) of None \<Rightarrow> Returned s1 | Some b \<Rightarrow> cb_inc b s1)"

text \<open>
  \<^verbatim>\<open>shared_ptr(shared_ptr &&r) noexcept : block(r.block), ptr(r.ptr)
  { r.block = nullptr; r.ptr = nullptr; }\<close>
\<close>

definition sp_ctor_move :: "nat \<Rightarrow> nat \<Rightarrow> state \<Rightarrow> state outcome" where
  "sp_ctor_move i j s =
     (let s1 = set_sp_ptr i (ptr (shared s j)) (set_sp_block i (block (shared s j)) s)
      in Returned (set_sp_ptr j 0 (set_sp_block j None s1)))"

text \<open>
  \<^verbatim>\<open>shared_ptr & assign(shared_ptr<Y> &&r)\<close>, lines 124 to 138: when the two block
  pointers are equal only \<^verbatim>\<open>ptr = r.ptr\<close> runs and the function returns; otherwise
  \<^verbatim>\<open>dec(); block = r.block; ptr = r.ptr; r.block = nullptr; r.ptr = nullptr;\<close>.
\<close>

definition sp_assign_move :: "nat \<Rightarrow> nat \<Rightarrow> state \<Rightarrow> state outcome" where
  "sp_assign_move i j s =
     (if block (shared s i) = block (shared s j)
      then Returned (set_sp_ptr i (ptr (shared s j)) s)
      else and_then (sp_dec i s) (\<lambda>s1.
             let s2 = set_sp_block i (block (shared s1 j)) s1;
                 s3 = set_sp_ptr i (ptr (shared s2 j)) s2;
                 s4 = set_sp_block j None s3
             in Returned (set_sp_ptr j 0 s4)))"

text \<open>
  \<^verbatim>\<open>shared_ptr & assign(const shared_ptr<Y> &r)\<close>, lines 140 to 151:
  \<^verbatim>\<open>auto old = block; block = r.block; if (block != nullptr) block->inc();
  ptr = r.ptr; if (old != nullptr) old->dec();\<close>
\<close>

definition sp_assign_copy :: "nat \<Rightarrow> nat \<Rightarrow> state \<Rightarrow> state outcome" where
  "sp_assign_copy i j s =
     (let old = block (shared s i);
          s1 = set_sp_block i (block (shared s j)) s
      in and_then (case block (shared s1 i) of None \<Rightarrow> Returned s1 | Some b \<Rightarrow> cb_inc b s1)
           (\<lambda>s2. let s3 = set_sp_ptr i (ptr (shared s2 j)) s2
                 in case old of None \<Rightarrow> Returned s3 | Some ob \<Rightarrow> cb_dec ob s3))"

text \<open>\<^verbatim>\<open>~shared_ptr(void) { dec(); }\<close>\<close>

definition sp_dtor :: "nat \<Rightarrow> state \<Rightarrow> state outcome" where
  "sp_dtor i s = sp_dec i s"

text \<open>\<^verbatim>\<open>T * get(void) const noexcept { return ptr; }\<close>\<close>

definition sp_get :: "nat \<Rightarrow> state \<Rightarrow> raw_ptr" where
  "sp_get i s = ptr (shared s i)"

text \<open>\<^verbatim>\<open>operator bool(void) const noexcept { return !!ptr; }\<close>\<close>

definition sp_bool :: "nat \<Rightarrow> state \<Rightarrow> bool" where
  "sp_bool i s = (\<not> \<not> ptr (shared s i) \<noteq> 0)"

text \<open>
  \<^verbatim>\<open>std::size_t use_count(void) const noexcept
  { if (block == nullptr) return 0; return block->use_count(); }\<close>
  The result is \<open>None\<close> when the block was already deleted.
\<close>

definition sp_use_count :: "nat \<Rightarrow> state \<Rightarrow> size_t option" where
  "sp_use_count i s = (case block (shared s i) of None \<Rightarrow> Some 0 | Some b \<Rightarrow> cb_use_count b s)"

text \<open>\<^verbatim>\<open>void reset(void) { dec(); block = nullptr; ptr = nullptr; }\<close>\<close>

definition sp_reset :: "nat \<Rightarrow> state \<Rightarrow> state outcome" where
  "sp_reset i s = and_then (sp_dec i s) (\<lambda>s1. Returned (set_sp_ptr i 0 (set_sp_block i None s1)))"

text \<open>
  \<^verbatim>\<open>void reset(Y *r) { dec(); block = new default_control_block<Y>(r); ptr = r; }\<close>
  When \<^verbatim>\<open>new\<close> throws, neither assignment has run.
\<close>

definition sp_reset_ptr :: "nat option \<Rightarrow> nat \<Rightarrow> raw_ptr \<Rightarrow> state \<Rightarrow> state outcome" where
  "sp_reset_ptr alloc i r s =
     and_then (sp_dec i s) (\<lambda>s1.
       case new_block alloc Default_block r s1 of
         None \<Rightarrow> Raised s1
       | Some (a, s2) \<Rightarrow> Returned (set_sp_ptr i r (set_sp_block i (Some a) s2)))"

text \<open>
  \<^verbatim>\<open>void reset(Y *r, D deleter) { dec(); try { block = nullptr; ptr = nullptr;
  block = new regular_control_block<Y, D>(r, std::move(deleter)); ptr = r; }
  catch (...) { deleter(r); throw; } }\<close>
\<close>

definition sp_reset_ptr_deleter :: "nat option \<Rightarrow> nat \<Rightarrow> raw_ptr \<Rightarrow> state \<Rightarrow> state outcome" where
  "sp_reset_ptr_deleter alloc i r s =
     and_then (sp_dec i s) (\<lambda>s1.
       let s2 = set_sp_ptr i 0 (set_sp_block i None s1)
       in case new_block alloc Regular_block r s2 of
            None \<Rightarrow> Raised (s2\<lparr>trace := trace s2 @ [Call_deleter r]\<rparr>)
          | Some (a, s3) \<Rightarrow> Returned (set_sp_ptr i r (set_sp_block i (Some a) s3)))"

text \<open>
  The comparison operators, lines 208 to 228: handle with handle, handle with a raw
  pointer and with \<^verbatim>\<open>nullptr\<close>, in both orders; each of them compares \<^verbatim>\<open>get()\<close>.
\<close>

definition sp_eq :: "nat \<Rightarrow> nat \<Rightarrow> state \<Rightarrow> bool" where
  "sp_eq i j s = (sp_get i s = sp_get j s)"

definition sp_eq_raw :: "nat \<Rightarrow> raw_ptr \<Rightarrow> state \<Rightarrow> bool" where
  "sp_eq_raw i y s = (sp_get i s = y)"

definition sp_eq_nullptr :: "nat \<Rightarrow> state \<Rightarrow> bool" where
  "sp_eq_nullptr i s = (sp_get i s = 0)"

definition raw_eq_sp :: "raw_ptr \<Rightarrow> nat \<Rightarrow> state \<Rightarrow> bool" where
  "raw_eq_sp y i s = (sp_get i s = y)"

definition nullptr_eq_sp :: "nat \<Rightarrow> state \<Rightarrow> bool" where
  "nullptr_eq_sp i s = (sp_get i s = 0)"

definition sp_neq :: "nat \<Rightarrow> nat \<Rightarrow> state \<Rightarrow> bool" where
  "sp_neq i j s = (\<not> sp_eq i j s)"

definition sp_neq_nullptr :: "nat \<Rightarrow> state \<Rightarrow> bool" where
  "sp_neq_nullptr i s = (\<not> sp_eq_nullptr i s)"

text \<open>
  \<^verbatim>\<open>make_shared\<close>: one \<^verbatim>\<open>new inplace_control_block<T>(args...)\<close>, then the private
  constructor with \<^verbatim>\<open>cb->get_obj()\<close>.  The address of the embedded storage is the
  parameter \<open>storage\<close>.  The function is not \<^verbatim>\<open>noexcept\<close>.
\<close>

definition make_shared :: "nat option \<Rightarrow> nat \<Rightarrow> raw_ptr \<Rightarrow> state \<Rightarrow> state outcome" where
  "make_shared alloc i storage s =
     (case new_block alloc Inplace_block storage s of
        None \<Rightarrow> Raised s
      | Some (a, s1) \<Rightarrow> Returned (sp_ctor_raw i (Some a) storage s1))"

section \<open>weak\_ptr\<close>

definition set_wp_block :: "nat \<Rightarrow> nat option \<Rightarrow> state \<Rightarrow> state" where
  "set_wp_block i b s = s\<lparr>weak := (weak s)(i := (weak s i)\<lparr>block := b\<rparr>)\<rparr>"

definition set_wp_ptr :: "nat \<Rightarrow> raw_ptr \<Rightarrow> state \<Rightarrow> state" where
  "set_wp_ptr i p s = s\<lparr>weak := (weak s)(i := (weak s i)\<lparr>ptr := p\<rparr>)\<rparr>"

text \<open>\<^verbatim>\<open>void wdec(void) { if (block != nullptr) block->wdec(); }\<close>\<close>

definition wp_wdec :: "nat \<Rightarrow> state \<Rightarrow> state outcome" where
  "wp_wdec i s = (case block (weak s i) of None \<Rightarrow> Returned s | Some b \<Rightarrow> cb_wdec b s)"

text \<open>\<^verbatim>\<open>weak_ptr(void) noexcept : block(nullptr), ptr(nullptr) {}\<close>\<close>

definition wp_ctor_default :: "nat \<Rightarrow> state \<Rightarrow> state outcome" where
  "wp_ctor_default i s = Returned (set_wp_ptr i 0 (set_wp_block i None s))"

text \<open>
  \<^verbatim>\<open>weak_ptr(const shared_ptr<Y> &t) { block = t.block; ptr = t.ptr;
  if (block != nullptr) block->winc(); }\<close>
\<close>

definition wp_ctor_shared :: "nat \<Rightarrow> nat \<Rightarrow> state \<Rightarrow> state outcome" where
  "wp_ctor_shared i j s =
     (let s1 = set_wp_ptr i (ptr (shared s j)) (set_wp_block i (block (shared s j)) s)
      in case block (weak s1 i) of None \<Rightarrow> Returned s1 | Some b \<Rightarrow> cb_winc b s1)"

text \<open>
  \<^verbatim>\<open>weak_ptr(const weak_ptr &r) noexcept : block(r.block), ptr(r.ptr)
  { if (block != nullptr) block->winc(); }\<close>
\<close>

definition wp_ctor_copy :: "nat \<Rightarrow> nat \<Rightarrow> state \<Rightarrow> state outcome" where
  "wp_ctor_copy i j s =
     (let s1 = set_wp_ptr i (ptr (weak s j)) (set_wp_block i (block (weak s j)) s)
      in case block (weak s1 i) of None \<Rightarrow> Returned s1 | Some b \<Rightarrow> cb_winc b s1)"

text \<open>
  \<^verbatim>\<open>weak_ptr(weak_ptr &&r) noexcept : block(r.block), ptr(r.ptr)
  { r.block = nullptr; r.ptr = nullptr; }\<close>
\<close>

definition wp_ctor_move :: "nat \<Rightarrow> nat \<Rightarrow> state \<Rightarrow> state outcome" where
  "wp_ctor_move i j s =
     (let s1 = set_wp_ptr i (ptr (weak s j)) (set_wp_block i (block (weak s j)) s)
      in Returned (set_wp_ptr j 0 (set_wp_block j None s1)))"

text \<open>\<^verbatim>\<open>weak_ptr & assign(weak_ptr<Y> &&r)\<close>, lines 264 to 278.\<close>

definition wp_assign_move :: "nat \<Rightarrow> nat \<Rightarrow> state \<Rightarrow> state outcome" where
  "wp_assign_move i j s =
     (if block (weak s i) = block (weak s j)
      then Returned (set_wp_ptr i (ptr (weak s j)) s)
      else and_then (wp_wdec i s) (\<lambda>s1.
             let s2 = set_wp_block i (block (weak s1 j)) s1;
                 s3 = set_wp_ptr i (ptr (weak s2 j)) s2;
                 s4 = set_wp_block j None s3
             in Returned (set_wp_ptr j 0 s4)))"

text \<open>\<^verbatim>\<open>weak_ptr & assign(const weak_ptr<Y> &r)\<close>, lines 280 to 291.\<close>

definition wp_assign_copy :: "nat \<Rightarrow> nat \<Rightarrow> state \<Rightarrow> state outcome" where
  "wp_assign_copy i j s =
     (let old = block (weak s i);
          s1 = set_wp_block i (block (weak s j)) s
      in and_then (case block (weak s1 i) of None \<Rightarrow> Returned s1 | Some b \<Rightarrow> cb_winc b s1)
           (\<lambda>s2. let s3 = set_wp_ptr i (ptr (weak s2 j)) s2
                 in case old of None \<Rightarrow> Returned s3 | Some ob \<Rightarrow> cb_wdec ob s3))"

text \<open>
  The destructor \<^verbatim>\<open>~weak_ptr\<close>, lines 300 to 304, is \<open>wp_dtor\<close>, defined with the
  control block above.
\<close>

text \<open>
  \<^verbatim>\<open>shared_ptr<T> lock(void) const noexcept { if (block == nullptr ||
  block->use_count() == 0) return shared_ptr<T>(nullptr); block->inc();
  return shared_ptr<T>(block, ptr); }\<close>
  The returned handle is constructed in the shared variable \<open>i\<close>.
\<close>

definition wp_lock :: "nat \<Rightarrow> nat \<Rightarrow> state \<Rightarrow> state outcome" where
  "wp_lock w i s =
     (case block (weak s w) of
        None \<Rightarrow> sp_ctor_nullptr i s
      | Some b \<Rightarrow>
          (case cb_use_count b s of
             None \<Rightarrow> Undefined_behaviour
           | Some n \<Rightarrow>
               if n = 0 then sp_ctor_nullptr i s
               else and_then (cb_inc b s)
                      (\<lambda>s1. Returned (sp_ctor_raw i (block (weak s1 w)) (ptr (weak s1 w)) s1))))"

section \<open>Handles that are counted\<close>

text \<open>
  A Shared Handle that holds a block is counted in the block's \<^verbatim>\<open>ref\<close>, a Weak Handle
  in its \<^verbatim>\<open>wref\<close>: the block is allocated and that counter is not zero.
\<close>

definition sp_counted :: "nat \<Rightarrow> state \<Rightarrow> bool" where
  "sp_counted i s =
     (case block (shared s i) of
        None \<Rightarrow> True
      | Some b \<Rightarrow> (case blocks s b of None \<Rightarrow> False | Some cb \<Rightarrow> ref cb \<noteq> 0))"

definition wp_counted :: "nat \<Rightarrow> state \<Rightarrow> bool" where
  "wp_counted i s =
     (case block (weak s i) of
        None \<Rightarrow> True
      | Some b \<Rightarrow> (case blocks s b of None \<Rightarrow> False | Some cb \<Rightarrow> wref cb \<noteq> 0))"

section \<open>Example states\<close>

definition st_empty :: state where
  "st_empty = \<lparr>blocks = Map.empty, shared = (\<lambda>_. empty_handle),
               weak = (\<lambda>_. empty_handle), trace = [], weak_members = (\<lambda>_. [])\<rparr>"

text \<open>One Shared Handle, variable 0, made from the raw pointer 100; its block is at 7.\<close>

definition st_one :: state where
  "st_one = \<lparr>blocks = [7 \<mapsto> \<lparr>ref = 1, wref = 0, variant = Default_block, obj = 100\<rparr>],
             shared = (\<lambda>_. empty_handle)(0 := \<lparr>block = Some 7, ptr = 100\<rparr>),
             weak = (\<lambda>_. empty_handle), trace = [], weak_members = (\<lambda>_. [])\<rparr>"

text \<open>
  Two Shared Handles and two Weak Handles on the block at 7; the handles in the
  variables 1 expose the address 200.
\<close>

definition st_two :: state where
  "st_two = \<lparr>blocks = [7 \<mapsto> \<lparr>ref = 2, wref = 2, variant = Default_block, obj = 100\<rparr>],
             shared = (\<lambda>_. empty_handle)(0 := \<lparr>block = Some 7, ptr = 100\<rparr>,
                                           1 := \<lparr>block = Some 7, ptr = 200\<rparr>),
             weak = (\<lambda>_. empty_handle)(0 := \<lparr>block = Some 7, ptr = 100\<rparr>,
                                         1 := \<lparr>block = Some 7, ptr = 200\<rparr>),
             trace = [Inc 7, WInc 7, WInc 7], weak_members = (\<lambda>_. [])\<rparr>"

text \<open>The state in which \<open>st_one\<close> is left when its block has been released.\<close>

definition st_one_released :: state where
  "st_one_released =
     st_one\<lparr>blocks := Map.empty,
            trace := [Dec 7, Destroy 7, Delete_obj 100, Delete_block 7]\<rparr>"

text \<open>
  The block at 7 after its only Shared Handle was reset while a Weak Handle, variable 0,
  still observes it.
\<close>

definition st_expired :: state where
  "st_expired = \<lparr>blocks = [7 \<mapsto> \<lparr>ref = 0, wref = 1, variant = Default_block, obj = 100\<rparr>],
             shared = (\<lambda>_. empty_handle),
             weak = (\<lambda>_. empty_handle)(0 := \<lparr>block = Some 7, ptr = 100\<rparr>),
             trace = [WInc 7, Dec 7, Destroy 7, Delete_obj 100],
             weak_members = (\<lambda>_. [])\<rparr>"

text \<open>
  A managed object that observes itself:
  \<^verbatim>\<open>struct Node { weak_ptr<Node> self; }; shared_ptr<Node> p(new Node); p->self = p;\<close>
  The object is at address 100 and its member \<^verbatim>\<open>self\<close> is the Weak Handle variable 0;
  \<^verbatim>\<open>p\<close> is the Shared Handle variable 0 and the block is at 7.  \<open>st_node_start\<close> is the
  state after \<^verbatim>\<open>new Node\<close>, \<open>st_node\<close> the state after the assignment, whose
  right-hand side is converted to a temporary Weak Handle, variable 1.
\<close>

definition st_node_start :: state where
  "st_node_start = st_empty\<lparr>weak_members := (\<lambda>_. [])(100 := [0])\<rparr>"

definition st_node :: state where
  "st_node = \<lparr>blocks = [7 \<mapsto> \<lparr>ref = 1, wref = 1, variant = Default_block, obj = 100\<rparr>],
              shared = (\<lambda>_. empty_handle)(0 := \<lparr>block = Some 7, ptr = 100\<rparr>),
              weak = (\<lambda>_. empty_handle)(0 := \<lparr>block = Some 7, ptr = 100\<rparr>),
              trace = [WInc 7],
              weak_members = (\<lambda>_. [])(100 := [0])\<rparr>"

text \<open>
  \<open>st_node\<close> inside \<^verbatim>\<open>p.reset()\<close>: when \<^verbatim>\<open>dec\<close> has lowered the strong count and
  is about to call \<^verbatim>\<open>destroy\<close>, and when \<^verbatim>\<open>destroy\<close> has returned.
\<close>

definition st_node_disposing :: state where
  "st_node_disposing =
     st_node\<lparr>blocks := [7 \<mapsto> \<lparr>ref = 0, wref = 1, variant = Default_block, obj = 100\<rparr>],
             trace := [WInc 7, Dec 7]\<rparr>"

definition st_node_disposed :: state where
  "st_node_disposed =
     st_node\<lparr>blocks := Map.empty,
             trace := [WInc 7, Dec 7, Destroy 7, Delete_obj 100, WDec 7, Delete_block 7]\<rparr>"

section \<open>Basic facts\<close>

lemmas cb_defs =
  cb_inc_def cb_dec_def cb_winc_def cb_wdec_def cb_use_count_def destroy_def new_block_def
  wp_dtor_def

lemmas sp_field_defs = set_sp_block_def set_sp_ptr_def

lemmas wp_field_defs = set_wp_block_def set_wp_ptr_def

lemma handle_overwrite: "h\<lparr>block := b, ptr := p\<rparr> = \<lparr>block = b, ptr = p\<rparr>"
  by (cases h) simp

lemma handle_block_same: "block h = v \<Longrightarrow> h\<lparr>block := v\<rparr> = h"
  by simp

lemma succ_nonzero:
  fixes x :: size_t
  shows "x \<noteq> - 1 \<Longrightarrow> x + 1 \<noteq> 0"
  by (simp add: add_eq_0_iff2)

lemma unat_succ_no_wrap:
  fixes x :: size_t
  assumes "x \<noteq> - 1"
  shows "unat (x + 1) = unat x + 1"
proof -
  from assms have "1 + x \<noteq> 0"
    by (simp add: add_eq_0_iff)
  then have "unat (1 + x) = Suc (unat x)"
    by (rule unatSuc)
  then show ?thesis
    by (simp add: add.commute)
qed

text \<open>The example states are reached through the public interface.\<close>

lemma st_one_reached: "sp_ctor_ptr (Some 7) 0 100 st_empty = Returned st_one"
  by (simp add: sp_ctor_ptr_def sp_field_defs new_block_def st_empty_def st_one_def
      empty_handle_def)

lemma st_two_reached:
  "and_then (sp_ctor_alias 1 0 200 st_one)
     (\<lambda>s. and_then (wp_ctor_shared 0 0 s) (wp_ctor_shared 1 1)) = Returned st_two"
  by (simp add: sp_ctor_alias_def wp_ctor_shared_def sp_field_defs wp_field_defs cb_defs
      st_one_def st_two_def empty_handle_def)

lemma st_expired_reached:
  "and_then (wp_ctor_shared 0 0 st_one) (sp_reset 0) = Returned st_expired"
  by (simp add: wp_ctor_shared_def sp_reset_def sp_dec_def sp_field_defs wp_field_defs cb_defs
      st_one_def st_expired_def empty_handle_def handle_overwrite fun_upd_idem_iff)

lemma st_node_reached:
  "and_then (sp_ctor_ptr (Some 7) 0 100 st_node_start)
     (\<lambda>s. and_then (wp_ctor_shared 1 0 s)
        (\<lambda>s. and_then (wp_assign_move 0 1 s) (wp_dtor 1))) = Returned st_node"
  by (simp add: sp_ctor_ptr_def wp_ctor_shared_def wp_assign_move_def wp_wdec_def
      sp_field_defs wp_field_defs cb_defs st_node_start_def st_empty_def st_node_def
      empty_handle_def handle_overwrite)
    (auto simp add: fun_eq_iff)

section \<open>Construction and observers\<close>

text \<open>
  Claim C8.  A Shared Handle constructed from a typed null raw pointer (the allocation
  of its block succeeding at some address \<open>a\<close>) holds a block, reports
  \<^verbatim>\<open>use_count() == 1\<close> and converts to \<open>false\<close>; a default-constructed or
  \<^verbatim>\<open>nullptr\<close>-constructed Shared Handle holds no block, reports \<^verbatim>\<open>use_count() == 0\<close>
  and converts to \<open>false\<close> as well.  The two states differ in \<^verbatim>\<open>use_count()\<close>.
\<close>

theorem typed_null_vs_default:
  "\<exists>s1 s2. sp_ctor_ptr (Some a) i 0 s = Returned s1 \<and>
           sp_ctor_default i s = Returned s2 \<and>
           sp_ctor_nullptr i s = Returned s2 \<and>
           block (shared s1 i) = Some a \<and>
           blocks s1 a = Some \<lparr>ref = 1, wref = 0, variant = Default_block, obj = 0\<rparr> \<and>
           sp_get i s1 = 0 \<and>
           sp_use_count i s1 = Some 1 \<and>
           \<not> sp_bool i s1 \<and>
           shared s2 i = empty_handle \<and>
           sp_use_count i s2 = Some 0 \<and>
           \<not> sp_bool i s2 \<and>
           sp_use_count i s1 \<noteq> sp_use_count i s2"
  by (simp add: sp_ctor_ptr_def sp_ctor_default_def sp_ctor_nullptr_def sp_field_defs
      new_block_def sp_get_def sp_use_count_def cb_use_count_def sp_bool_def
      empty_handle_def handle_overwrite)

text \<open>
  Claim C9.  Two Shared Handles compare equal exactly when their \<^verbatim>\<open>get()\<close> values are
  equal, whatever blocks they hold, and a Shared Handle equals \<^verbatim>\<open>nullptr\<close> exactly when
  its address is null.  In particular a handle made by the aliasing constructor from a
  handle \<open>j\<close> shares the block of \<open>j\<close> and compares equal to \<open>j\<close> only when the
  address given to the constructor is the address of \<open>j\<close>.
\<close>

theorem equality_by_address:
  "(sp_eq i j s \<longleftrightarrow> sp_get i s = sp_get j s) \<and>
   (sp_neq i j s \<longleftrightarrow> sp_get i s \<noteq> sp_get j s) \<and>
   (sp_eq_nullptr i s \<longleftrightarrow> sp_get i s = 0) \<and>
   (nullptr_eq_sp i s \<longleftrightarrow> sp_get i s = 0) \<and>
   (sp_neq_nullptr i s \<longleftrightarrow> sp_get i s \<noteq> 0) \<and>
   (i \<noteq> j \<and> block (shared s j) = Some b \<and> blocks s b = Some cb \<longrightarrow>
      (\<exists>s'. sp_ctor_alias i j a s = Returned s' \<and>
            block (shared s' i) = block (shared s' j) \<and>
            (sp_eq i j s' \<longleftrightarrow> a = sp_get j s)))"
  by (auto simp add: sp_eq_def sp_neq_def sp_eq_nullptr_def nullptr_eq_sp_def
      sp_neq_nullptr_def sp_get_def sp_ctor_alias_def sp_field_defs cb_inc_def)

theorem equality_by_address_witness:
  "(0::nat) \<noteq> 1 \<and> block (shared st_two 1) = Some 7 \<and>
   blocks st_two 7 = Some \<lparr>ref = 2, wref = 2, variant = Default_block, obj = 100\<rparr> \<and>
   block (shared st_two 0) = block (shared st_two 1) \<and>
   sp_get 0 st_two \<noteq> sp_get 1 st_two \<and>
   \<not> sp_eq 0 1 st_two \<and>
   sp_neq 0 1 st_two \<and>
   \<not> sp_eq_nullptr 0 st_two \<and>
   (\<exists>s'. sp_ctor_alias 0 1 300 st_two = Returned s' \<and>
         block (shared s' 0) = block (shared s' 1) \<and>
         (sp_eq 0 1 s' \<longleftrightarrow> (300::nat) = sp_get 1 st_two))"
proof -
  have h: "(0::nat) \<noteq> 1 \<and> block (shared st_two 1) = Some 7 \<and>
      blocks st_two 7 = Some \<lparr>ref = 2, wref = 2, variant = Default_block, obj = 100\<rparr>"
    by (simp add: st_two_def)
  have g: "block (shared st_two 0) = block (shared st_two 1) \<and>
      sp_get 0 st_two \<noteq> sp_get 1 st_two \<and> sp_get 0 st_two \<noteq> 0"
    by (simp add: st_two_def sp_get_def)
  from h g equality_by_address [where i = 0 and j = 1 and s = st_two and b = 7
      and cb = "\<lparr>ref = 2, wref = 2, variant = Default_block, obj = 100\<rparr>" and a = 300]
  show ?thesis by blast
qed

text \<open>
  Claim C10.  The aliasing constructor applied to a Shared Handle \<open>j\<close> without a block
  and an address \<open>a\<close> returns, for every state, and yields a handle without a block
  whose \<^verbatim>\<open>get()\<close> is \<open>a\<close> and whose \<^verbatim>\<open>use_count()\<close> is 0; no block and no counter is
  touched and nothing is recorded in the trace.
\<close>

theorem alias_of_empty:
  assumes "block (shared s j) = None"
  shows "\<exists>s'. sp_ctor_alias i j a s = Returned s' \<and>
              s' = s\<lparr>shared := (shared s)(i := \<lparr>block = None, ptr = a\<rparr>)\<rparr> \<and>
              block (shared s' i) = None \<and>
              sp_get i s' = a \<and>
              sp_use_count i s' = Some 0 \<and>
              blocks s' = blocks s \<and>
              trace s' = trace s"
  using assms
  by (simp add: sp_ctor_alias_def sp_field_defs sp_get_def sp_use_count_def handle_overwrite)

theorem alias_of_empty_witness:
  "block (shared st_one 1) = None \<and>
   sp_ctor_alias 2 1 300 st_one =
     Returned (st_one\<lparr>shared := (shared st_one)(2 := \<lparr>block = None, ptr = 300\<rparr>)\<rparr>) \<and>
   sp_use_count 2 (st_one\<lparr>shared := (shared st_one)(2 := \<lparr>block = None, ptr = 300\<rparr>)\<rparr>)
     = Some 0"
proof -
  have h: "block (shared st_one 1) = None"
    by (simp add: st_one_def empty_handle_def)
  from alias_of_empty [OF h, of 2 300] h show ?thesis
    by auto
qed

section \<open>Allocation failure\<close>

text \<open>
  The counting methods write no handle.  So when \<^verbatim>\<open>new\<close> throws in \<^verbatim>\<open>reset(r)\<close>,
  the handle is what it was before the call, although its block has been decremented;
  in \<^verbatim>\<open>reset(r, deleter)\<close> the handle is empty and the deleter has been called on
  \<open>r\<close> last.
\<close>

lemma cb_wdec_handles:
  "cb_wdec b s = Returned s1 \<Longrightarrow> shared s1 = shared s \<and> weak s1 = weak s"
  by (auto simp add: cb_wdec_def Let_def split: option.splits if_splits)

lemma cb_wdec_not_Raised: "cb_wdec b s \<noteq> Raised s1"
  by (auto simp add: cb_wdec_def Let_def split: option.splits)

lemma release_members_handles:
  "release_members ws s = Returned s1 \<Longrightarrow> shared s1 = shared s \<and> weak s1 = weak s"
proof (induction ws arbitrary: s)
  case Nil
  then show ?case by simp
next
  case (Cons w ws)
  show ?case
  proof (cases "wp_dtor w s")
    case (Returned s2)
    with Cons.prems have "release_members ws s2 = Returned s1"
      by simp
    then have "shared s1 = shared s2 \<and> weak s1 = weak s2"
      by (rule Cons.IH)
    moreover from Returned have "shared s2 = shared s \<and> weak s2 = weak s"
      by (auto simp add: wp_dtor_def cb_wdec_handles split: option.splits)
    ultimately show ?thesis by simp
  next
    case (Raised s2)
    with Cons.prems show ?thesis by simp
  next
    case Terminated
    with Cons.prems show ?thesis by simp
  next
    case Undefined_behaviour
    with Cons.prems show ?thesis by simp
  qed
qed

lemma release_members_not_Raised: "release_members ws s \<noteq> Raised s1"
proof (induction ws arbitrary: s)
  case Nil
  show ?case by simp
next
  case (Cons w ws)
  show ?case
  proof (cases "wp_dtor w s")
    case (Returned s2)
    with Cons.IH [of s2] show ?thesis by simp
  next
    case (Raised s2)
    then show ?thesis
      by (auto simp add: wp_dtor_def cb_wdec_not_Raised split: option.splits)
  next
    case Terminated
    then show ?thesis by simp
  next
    case Undefined_behaviour
    then show ?thesis by simp
  qed
qed

lemma destroy_handles:
  "destroy b cb s = Returned s1 \<Longrightarrow> shared s1 = shared s \<and> weak s1 = weak s"
  by (auto simp add: destroy_def Let_def dest: release_members_handles
      split: variant.splits if_splits)

lemma destroy_not_Raised: "destroy b cb s \<noteq> Raised s1"
  by (simp add: destroy_def Let_def release_members_not_Raised split: variant.splits)

lemma cb_dec_handles:
  assumes "cb_dec b s = Returned s1"
  shows "shared s1 = shared s \<and> weak s1 = weak s"
proof -
  from assms obtain cb where blk: "blocks s b = Some cb"
    by (auto simp add: cb_dec_def split: option.splits)
  let ?cb = "cb\<lparr>ref := ref cb - 1\<rparr>"
  let ?s = "s\<lparr>blocks := (blocks s)(b \<mapsto> ?cb), trace := trace s @ [Dec b]\<rparr>"
  show ?thesis
  proof (cases "ref cb - 1 = 0")
    case False
    with assms blk show ?thesis
      by (auto simp add: cb_dec_def Let_def)
  next
    case True
    show ?thesis
    proof (cases "destroy b ?cb ?s")
      case (Returned s2)
      then have "shared s2 = shared ?s \<and> weak s2 = weak ?s"
        by (rule destroy_handles)
      with assms blk True Returned show ?thesis
        by (auto simp add: cb_dec_def Let_def split: option.splits if_splits)
    next
      case (Raised s2)
      with assms blk True show ?thesis
        by (simp add: cb_dec_def Let_def)
    next
      case Terminated
      with assms blk True show ?thesis
        by (simp add: cb_dec_def Let_def)
    next
      case Undefined_behaviour
      with assms blk True show ?thesis
        by (simp add: cb_dec_def Let_def)
    qed
  qed
qed

lemma cb_dec_not_Raised: "cb_dec b s \<noteq> Raised s1"
proof (cases "blocks s b")
  case None
  then show ?thesis by (simp add: cb_dec_def)
next
  case (Some cb)
  let ?cb = "cb\<lparr>ref := ref cb - 1\<rparr>"
  let ?s = "s\<lparr>blocks := (blocks s)(b \<mapsto> ?cb), trace := trace s @ [Dec b]\<rparr>"
  show ?thesis
  proof (cases "ref cb - 1 = 0")
    case False
    with Some show ?thesis
      by (auto simp add: cb_dec_def Let_def)
  next
    case True
    show ?thesis
    proof (cases "destroy b ?cb ?s")
      case (Returned s2)
      with Some True show ?thesis
        by (auto simp add: cb_dec_def Let_def split: option.splits)
    next
      case (Raised s2)
      then show ?thesis by (simp add: destroy_not_Raised)
    next
      case Terminated
      with Some True show ?thesis
        by (auto simp add: cb_dec_def Let_def)
    next
      case Undefined_behaviour
      with Some True show ?thesis
        by (auto simp add: cb_dec_def Let_def)
    qed
  qed
qed

lemma sp_dec_handles:
  "sp_dec i s = Returned s1 \<Longrightarrow> shared s1 = shared s \<and> weak s1 = weak s"
  by (auto simp add: sp_dec_def cb_dec_handles split: option.splits)

lemma sp_dec_not_Raised: "sp_dec i s \<noteq> Raised s1"
  by (simp add: sp_dec_def cb_dec_not_Raised split: option.splits)

lemma sp_reset_ptr_alloc_failure:
  assumes "sp_reset_ptr None i r s = Raised s1"
  shows "sp_dec i s = Returned s1 \<and> shared s1 i = shared s i"
proof (cases "sp_dec i s")
  case (Returned s2)
  with assms have "s2 = s1"
    by (simp add: sp_reset_ptr_def new_block_def)
  with Returned sp_dec_handles [of i s s1] show ?thesis
    by simp
next
  case (Raised s2)
  then show ?thesis
    by (simp add: sp_dec_not_Raised)
next
  case Terminated
  with assms show ?thesis
    by (simp add: sp_reset_ptr_def)
next
  case Undefined_behaviour
  with assms show ?thesis
    by (simp add: sp_reset_ptr_def)
qed

lemma sp_reset_ptr_deleter_alloc_failure:
  assumes "sp_dec i s = Returned s1"
  shows "sp_reset_ptr_deleter None i r s =
           Raised (s1\<lparr>shared := (shared s1)(i := empty_handle),
                      trace := trace s1 @ [Call_deleter r]\<rparr>)"
  using assms
  by (simp add: sp_reset_ptr_deleter_def new_block_def sp_field_defs empty_handle_def
      handle_overwrite)

text \<open>
  Claim C2.  The claim: when \<^verbatim>\<open>reset(r)\<close> or \<^verbatim>\<open>reset(r, deleter)\<close> has released
  the old block and the allocation of the new block fails, the handle is empty and does
  not hold the released block any more.  \<^verbatim>\<open>reset(r)\<close> does not do so: for the handle
  of \<open>st_one\<close>, sole owner of the block at 7, a failing \<^verbatim>\<open>new\<close> leaves the call by
  the exception after the block was destroyed and deleted, and the handle still holds
  the address 7 and the pointer 100, so that its destructor touches the deleted block.
  \<^verbatim>\<open>reset(r, deleter)\<close> on the same state clears both fields before it allocates and
  calls the deleter on \<open>r\<close>.
\<close>

theorem reset_ptr_alloc_failure_keeps_released_block:
  "sp_reset_ptr None 0 200 st_one = Raised st_one_released \<and>
   blocks st_one_released 7 = None \<and>
   shared st_one_released 0 = \<lparr>block = Some 7, ptr = 100\<rparr> \<and>
   shared st_one_released 0 \<noteq> empty_handle \<and>
   sp_use_count 0 st_one_released = None \<and>
   sp_dtor 0 st_one_released = Undefined_behaviour \<and>
   sp_reset_ptr_deleter None 0 200 st_one =
     Raised (st_one_released\<lparr>shared := (shared st_one_released)(0 := empty_handle),
                             trace := trace st_one_released @ [Call_deleter 200]\<rparr>)"
  by (simp add: sp_reset_ptr_def sp_reset_ptr_deleter_def sp_dec_def sp_dtor_def
      sp_use_count_def sp_field_defs cb_defs st_one_def st_one_released_def empty_handle_def)

text \<open>
  Claim C3.  The claim: an allocation failure in a constructor that creates a block
  reaches the caller as a failure of that constructor, after one call of the deleter on
  the raw pointer when a deleter was given.  The constructor with a deleter does so: it
  leaves by the exception, having recorded exactly one call of the deleter on the raw
  pointer and having written no handle.  The constructor from a raw pointer alone is
  declared \<^verbatim>\<open>noexcept\<close>: there the exception of \<^verbatim>\<open>new\<close> ends the program and no
  failure reaches the caller.
\<close>

theorem raw_pointer_ctor_alloc_failure_terminates:
  "sp_ctor_ptr None i p s = Terminated \<and>
   sp_ctor_ptr_deleter None i p s = Raised (s\<lparr>trace := trace s @ [Call_deleter p]\<rparr>)"
  by (simp add: sp_ctor_ptr_def sp_ctor_ptr_deleter_def new_block_def)

section \<open>Assignment between handles of one block\<close>

text \<open>
  The branch of move-assignment taken when the two block pointers are equal: the exact
  state it returns.
\<close>

lemma sp_assign_move_same_block:
  "block (shared s i) = block (shared s j) \<Longrightarrow>
     sp_assign_move i j s =
       Returned (s\<lparr>shared := (shared s)(i := (shared s i)\<lparr>ptr := ptr (shared s j)\<rparr>)\<rparr>)"
  by (simp add: sp_assign_move_def set_sp_ptr_def)

lemma wp_assign_move_same_block:
  "block (weak s i) = block (weak s j) \<Longrightarrow>
     wp_assign_move i j s =
       Returned (s\<lparr>weak := (weak s)(i := (weak s i)\<lparr>ptr := ptr (weak s j)\<rparr>)\<rparr>)"
  by (simp add: wp_assign_move_def set_wp_ptr_def)

text \<open>
  Claim C1, as amended.  When the block pointers of destination \<open>i\<close> and source \<open>j\<close>
  are equal, move-assignment (of Shared Handles and of Weak Handles alike) returns with
  the address of the source adopted into the destination; the destination keeps its
  block, no block and no count changes and no counting call is made, so ownership is not
  duplicated.  When source and destination are the same handle, it is not reset to empty:
  the state is left exactly as it was.
\<close>

theorem move_assign_same_block:
  "(block (shared s i) = block (shared s j) \<longrightarrow>
      (\<exists>s'. sp_assign_move i j s = Returned s' \<and>
            ptr (shared s' i) = ptr (shared s j) \<and>
            block (shared s' i) = block (shared s i) \<and>
            blocks s' = blocks s \<and> trace s' = trace s \<and>
            (i = j \<longrightarrow> s' = s))) \<and>
   (block (weak s i) = block (weak s j) \<longrightarrow>
      (\<exists>s'. wp_assign_move i j s = Returned s' \<and>
            ptr (weak s' i) = ptr (weak s j) \<and>
            block (weak s' i) = block (weak s i) \<and>
            blocks s' = blocks s \<and> trace s' = trace s \<and>
            (i = j \<longrightarrow> s' = s)))"
  by (simp add: sp_assign_move_same_block wp_assign_move_same_block)

theorem move_assign_same_block_witness:
  "block (shared st_two 0) = block (shared st_two 1) \<and>
   block (weak st_two 0) = block (weak st_two 1) \<and>
   (\<exists>s'. sp_assign_move 0 1 st_two = Returned s' \<and>
         ptr (shared s' 0) = 200 \<and> block (shared s' 0) = Some 7 \<and>
         blocks s' = blocks st_two \<and> trace s' = trace st_two) \<and>
   (\<exists>s'. wp_assign_move 0 1 st_two = Returned s' \<and>
         ptr (weak s' 0) = 200 \<and> block (weak s' 0) = Some 7 \<and>
         blocks s' = blocks st_two \<and> trace s' = trace st_two) \<and>
   sp_assign_move 0 0 st_two = Returned st_two \<and>
   wp_assign_move 0 0 st_two = Returned st_two"
proof -
  have h: "block (shared st_two 0) = block (shared st_two 1) \<and>
      block (weak st_two 0) = block (weak st_two 1) \<and>
      ptr (shared st_two 1) = 200 \<and> ptr (weak st_two 1) = 200 \<and>
      block (shared st_two 0) = Some 7 \<and> block (weak st_two 0) = Some 7"
    by (simp add: st_two_def)
  from h move_assign_same_block [of st_two 0 1] move_assign_same_block [of st_two 0 0]
  show ?thesis by auto
qed

text \<open>
  The claim as it was stated, that the source is reset to empty, fails in \<open>st_two\<close>.
  Move-assigning the Shared Handle in variable 0 to itself, or the Weak Handle in
  variable 0 to itself, leaves it holding the block at 7.  And after the move-assignment
  from variable 1 to variable 0, two handles of the same block, the source still holds
  the block at 7 and the address 200.
\<close>

theorem move_assign_same_block_source_not_reset:
  "block (shared st_two 0) = block (shared st_two 0) \<and>
   sp_assign_move 0 0 st_two = Returned st_two \<and>
   shared st_two 0 = \<lparr>block = Some 7, ptr = 100\<rparr> \<and>
   shared st_two 0 \<noteq> empty_handle \<and>
   block (weak st_two 0) = block (weak st_two 0) \<and>
   wp_assign_move 0 0 st_two = Returned st_two \<and>
   weak st_two 0 \<noteq> empty_handle \<and>
   block (shared st_two 0) = block (shared st_two 1) \<and>
   sp_assign_move 0 1 st_two =
     Returned (st_two\<lparr>shared := (shared st_two)(0 := \<lparr>block = Some 7, ptr = 200\<rparr>)\<rparr>) \<and>
   shared (st_two\<lparr>shared := (shared st_two)(0 := \<lparr>block = Some 7, ptr = 200\<rparr>)\<rparr>) 1 =
     \<lparr>block = Some 7, ptr = 200\<rparr> \<and>
   shared (st_two\<lparr>shared := (shared st_two)(0 := \<lparr>block = Some 7, ptr = 200\<rparr>)\<rparr>) 1 \<noteq>
     empty_handle"
proof -
  have self_sp: "sp_assign_move 0 0 st_two = Returned st_two"
    by (simp add: sp_assign_move_same_block)
  have self_wp: "wp_assign_move 0 0 st_two = Returned st_two"
    by (simp add: wp_assign_move_same_block)
  have held: "shared st_two 0 = \<lparr>block = Some 7, ptr = 100\<rparr> \<and>
      shared st_two 0 \<noteq> empty_handle \<and> weak st_two 0 \<noteq> empty_handle"
    by (simp add: st_two_def empty_handle_def)
  have pair: "block (shared st_two 0) = block (shared st_two 1) \<and>
      sp_assign_move 0 1 st_two =
        Returned (st_two\<lparr>shared := (shared st_two)(0 := \<lparr>block = Some 7, ptr = 200\<rparr>)\<rparr>) \<and>
      shared (st_two\<lparr>shared := (shared st_two)(0 := \<lparr>block = Some 7, ptr = 200\<rparr>)\<rparr>) 1 =
        \<lparr>block = Some 7, ptr = 200\<rparr> \<and>
      shared (st_two\<lparr>shared := (shared st_two)(0 := \<lparr>block = Some 7, ptr = 200\<rparr>)\<rparr>) 1 \<noteq>
        empty_handle"
    by (simp add: sp_assign_move_def set_sp_ptr_def st_two_def empty_handle_def)
  from self_sp self_wp held pair show ?thesis
    by blast
qed

text \<open>
  Claim C6, as amended.  Copy-assignment between two counted handles that hold the same
  block (Shared Handles on a block whose strong count is not zero, Weak Handles on a
  block whose weak count is not zero) makes no test of the block pointers: it calls
  \<^verbatim>\<open>inc\<close> and then \<^verbatim>\<open>dec\<close> on the shared block (\<^verbatim>\<open>winc\<close> and then \<^verbatim>\<open>wdec\<close> for
  Weak Handles).  The two calls cancel: afterwards only the address of the destination
  has changed, every block and every count is as before, and nothing was disposed of or
  deallocated.
\<close>

theorem copy_assign_same_block:
  "(block (shared s i) = Some b \<and> block (shared s j) = Some b \<and>
    blocks s b = Some cb \<and> ref cb \<noteq> 0 \<longrightarrow>
      sp_assign_copy i j s =
        Returned (s\<lparr>shared := (shared s)(i := (shared s i)\<lparr>ptr := ptr (shared s j)\<rparr>),
                    trace := trace s @ [Inc b, Dec b]\<rparr>)) \<and>
   (block (weak s i) = Some b \<and> block (weak s j) = Some b \<and>
    blocks s b = Some cb \<and> wref cb \<noteq> 0 \<longrightarrow>
      wp_assign_copy i j s =
        Returned (s\<lparr>weak := (weak s)(i := (weak s i)\<lparr>ptr := ptr (weak s j)\<rparr>),
                    trace := trace s @ [WInc b, WDec b]\<rparr>))"
proof (intro conjI impI)
  assume "block (shared s i) = Some b \<and> block (shared s j) = Some b \<and>
    blocks s b = Some cb \<and> ref cb \<noteq> 0"
  then show "sp_assign_copy i j s =
        Returned (s\<lparr>shared := (shared s)(i := (shared s i)\<lparr>ptr := ptr (shared s j)\<rparr>),
                    trace := trace s @ [Inc b, Dec b]\<rparr>)"
    by (clarsimp simp add: sp_assign_copy_def sp_field_defs cb_inc_def cb_dec_def
        handle_block_same map_upd_triv)
next
  assume "block (weak s i) = Some b \<and> block (weak s j) = Some b \<and>
    blocks s b = Some cb \<and> wref cb \<noteq> 0"
  then show "wp_assign_copy i j s =
        Returned (s\<lparr>weak := (weak s)(i := (weak s i)\<lparr>ptr := ptr (weak s j)\<rparr>),
                    trace := trace s @ [WInc b, WDec b]\<rparr>)"
    by (clarsimp simp add: wp_assign_copy_def wp_field_defs cb_winc_def cb_wdec_def
        handle_block_same map_upd_triv)
qed

theorem copy_assign_same_block_witness:
  "block (shared st_two 0) = Some 7 \<and> block (shared st_two 1) = Some 7 \<and>
   block (weak st_two 0) = Some 7 \<and> block (weak st_two 1) = Some 7 \<and>
   blocks st_two 7 = Some \<lparr>ref = 2, wref = 2, variant = Default_block, obj = 100\<rparr> \<and>
   sp_assign_copy 0 1 st_two =
     Returned (st_two\<lparr>shared := (shared st_two)(0 := \<lparr>block = Some 7, ptr = 200\<rparr>),
                      trace := [Inc 7, WInc 7, WInc 7, Inc 7, Dec 7]\<rparr>) \<and>
   wp_assign_copy 0 1 st_two =
     Returned (st_two\<lparr>weak := (weak st_two)(0 := \<lparr>block = Some 7, ptr = 200\<rparr>),
                      trace := [Inc 7, WInc 7, WInc 7, WInc 7, WDec 7]\<rparr>)"
  using copy_assign_same_block [of st_two 0 7 1
      "\<lparr>ref = 2, wref = 2, variant = Default_block, obj = 100\<rparr>"]
  by (simp add: st_two_def)

text \<open>
  The claim as it was stated, that no increment and no decrement is performed, fails
  for the two Shared Handles of \<open>st_two\<close>: the copy-assignment from variable 1 to
  variable 0 calls \<^verbatim>\<open>inc\<close> and \<^verbatim>\<open>dec\<close> on the block at 7.
\<close>

theorem copy_assign_same_block_counts_touched:
  "block (shared st_two 0) = Some 7 \<and> block (shared st_two 1) = Some 7 \<and>
   sp_assign_copy 0 1 st_two =
     Returned (st_two\<lparr>shared := (shared st_two)(0 := \<lparr>block = Some 7, ptr = 200\<rparr>),
                      trace := trace st_two @ [Inc 7, Dec 7]\<rparr>) \<and>
   trace st_two @ [Inc 7, Dec 7] \<noteq> trace st_two \<and>
   Inc 7 \<in> set [Inc 7, Dec 7] \<and> Dec 7 \<in> set [Inc 7, Dec 7]"
  by (simp add: sp_assign_copy_def sp_field_defs cb_inc_def cb_dec_def st_two_def)

text \<open>
  Claim C7.  Assigning a handle to itself leaves the observable state as it was.  By
  move, for Shared and Weak Handles, the state is not changed at all.  By copy, for a
  counted handle, the blocks with their strong and weak counts and all handles with
  their addresses are as before; the only events are the \<^verbatim>\<open>inc\<close> and \<^verbatim>\<open>dec\<close>
  (\<^verbatim>\<open>winc\<close> and \<^verbatim>\<open>wdec\<close>) on the handle's own block, and the managed value is not
  disposed of.
\<close>

theorem self_assign_noop:
  "sp_assign_move i i s = Returned s \<and>
   wp_assign_move i i s = Returned s \<and>
   (sp_counted i s \<longrightarrow>
      sp_assign_copy i i s =
        Returned (s\<lparr>trace := trace s @
          (case block (shared s i) of None \<Rightarrow> [] | Some b \<Rightarrow> [Inc b, Dec b])\<rparr>)) \<and>
   (wp_counted i s \<longrightarrow>
      wp_assign_copy i i s =
        Returned (s\<lparr>trace := trace s @
          (case block (weak s i) of None \<Rightarrow> [] | Some b \<Rightarrow> [WInc b, WDec b])\<rparr>))"
proof (intro conjI impI)
  show "sp_assign_move i i s = Returned s"
    by (simp add: sp_assign_move_def set_sp_ptr_def)
  show "wp_assign_move i i s = Returned s"
    by (simp add: wp_assign_move_def set_wp_ptr_def)
next
  assume "sp_counted i s"
  then show "sp_assign_copy i i s =
        Returned (s\<lparr>trace := trace s @
          (case block (shared s i) of None \<Rightarrow> [] | Some b \<Rightarrow> [Inc b, Dec b])\<rparr>)"
    by (auto simp add: sp_counted_def sp_assign_copy_def sp_field_defs cb_inc_def cb_dec_def
        map_upd_triv split: option.splits)
next
  assume "wp_counted i s"
  then show "wp_assign_copy i i s =
        Returned (s\<lparr>trace := trace s @
          (case block (weak s i) of None \<Rightarrow> [] | Some b \<Rightarrow> [WInc b, WDec b])\<rparr>)"
    by (auto simp add: wp_counted_def wp_assign_copy_def wp_field_defs cb_winc_def cb_wdec_def
        map_upd_triv split: option.splits)
qed

theorem self_assign_noop_witness:
  "sp_counted 0 st_two \<and> wp_counted 1 st_two \<and> sp_counted 2 st_two \<and>
   sp_assign_move 0 0 st_two = Returned st_two \<and>
   wp_assign_move 1 1 st_two = Returned st_two \<and>
   sp_assign_copy 0 0 st_two =
     Returned (st_two\<lparr>trace := [Inc 7, WInc 7, WInc 7, Inc 7, Dec 7]\<rparr>) \<and>
   wp_assign_copy 1 1 st_two =
     Returned (st_two\<lparr>trace := [Inc 7, WInc 7, WInc 7, WInc 7, WDec 7]\<rparr>) \<and>
   sp_assign_copy 2 2 st_two = Returned st_two"
proof -
  have h: "sp_counted 0 st_two \<and> wp_counted 1 st_two \<and> sp_counted 2 st_two"
    by (simp add: sp_counted_def wp_counted_def st_two_def empty_handle_def)
  have t: "trace st_two = [Inc 7, WInc 7, WInc 7]"
    and b0: "block (shared st_two 0) = Some 7"
    and b1: "block (weak st_two 1) = Some 7"
    and b2: "block (shared st_two 2) = None"
    by (simp_all add: st_two_def empty_handle_def)
  from h t b0 b1 b2 self_assign_noop [of 0 st_two] self_assign_noop [of 1 st_two]
    self_assign_noop [of 2 st_two]
  show ?thesis by simp
qed

section \<open>Promotion\<close>

text \<open>
  Claim C5.  \<^verbatim>\<open>lock()\<close> on a Weak Handle \<open>w\<close> returns an empty Shared Handle when
  \<open>w\<close> holds no block or when the strong count of its block is 0, and changes nothing
  else.  Otherwise it adds exactly 1 to the strong count of the block (in
  \<^verbatim>\<open>std::size_t\<close> arithmetic; as a number, whenever the count is not at its largest
  value) and returns a Shared Handle with the same block and the same address; the only
  event between the test and the return is that one \<^verbatim>\<open>inc\<close>, so nothing is disposed
  of in between.
\<close>

theorem lock_promotes:
  "(block (weak s w) = None \<longrightarrow>
      wp_lock w i s = Returned (s\<lparr>shared := (shared s)(i := empty_handle)\<rparr>)) \<and>
   (block (weak s w) = Some b \<and> blocks s b = Some cb \<and> ref cb = 0 \<longrightarrow>
      wp_lock w i s = Returned (s\<lparr>shared := (shared s)(i := empty_handle)\<rparr>)) \<and>
   (block (weak s w) = Some b \<and> blocks s b = Some cb \<and> ref cb \<noteq> 0 \<longrightarrow>
      wp_lock w i s =
        Returned (s\<lparr>blocks := (blocks s)(b \<mapsto> cb\<lparr>ref := ref cb + 1\<rparr>),
                    shared := (shared s)(i := \<lparr>block = Some b, ptr = ptr (weak s w)\<rparr>),
                    trace := trace s @ [Inc b]\<rparr>) \<and>
      (ref cb \<noteq> - 1 \<longrightarrow> unat (ref cb + 1) = unat (ref cb) + 1))"
proof (intro conjI impI)
  assume "block (weak s w) = None"
  then show "wp_lock w i s = Returned (s\<lparr>shared := (shared s)(i := empty_handle)\<rparr>)"
    by (simp add: wp_lock_def sp_ctor_nullptr_def sp_ctor_default_def sp_field_defs
        empty_handle_def handle_overwrite)
next
  assume "block (weak s w) = Some b \<and> blocks s b = Some cb \<and> ref cb = 0"
  then show "wp_lock w i s = Returned (s\<lparr>shared := (shared s)(i := empty_handle)\<rparr>)"
    by (simp add: wp_lock_def cb_use_count_def sp_ctor_nullptr_def sp_ctor_default_def
        sp_field_defs empty_handle_def handle_overwrite)
next
  assume "block (weak s w) = Some b \<and> blocks s b = Some cb \<and> ref cb \<noteq> 0"
  then show "wp_lock w i s =
        Returned (s\<lparr>blocks := (blocks s)(b \<mapsto> cb\<lparr>ref := ref cb + 1\<rparr>),
                    shared := (shared s)(i := \<lparr>block = Some b, ptr = ptr (weak s w)\<rparr>),
                    trace := trace s @ [Inc b]\<rparr>)"
    by (simp add: wp_lock_def cb_use_count_def cb_inc_def sp_ctor_raw_def sp_field_defs
        handle_overwrite)
next
  assume "ref cb \<noteq> - 1"
  then show "unat (ref cb + 1) = unat (ref cb) + 1"
    by (rule unat_succ_no_wrap)
qed

theorem lock_promotes_witness:
  "block (weak st_two 2) = None \<and>
   wp_lock 2 3 st_two = Returned (st_two\<lparr>shared := (shared st_two)(3 := empty_handle)\<rparr>) \<and>
   block (weak st_expired 0) = Some 7 \<and>
   blocks st_expired 7 = Some \<lparr>ref = 0, wref = 1, variant = Default_block, obj = 100\<rparr> \<and>
   wp_lock 0 3 st_expired =
     Returned (st_expired\<lparr>shared := (shared st_expired)(3 := empty_handle)\<rparr>) \<and>
   block (weak st_two 1) = Some 7 \<and>
   blocks st_two 7 = Some \<lparr>ref = 2, wref = 2, variant = Default_block, obj = 100\<rparr> \<and>
   wp_lock 1 3 st_two =
     Returned (st_two\<lparr>blocks := [7 \<mapsto> \<lparr>ref = 3, wref = 2, variant = Default_block, obj = 100\<rparr>],
                      shared := (shared st_two)(3 := \<lparr>block = Some 7, ptr = 200\<rparr>),
                      trace := [Inc 7, WInc 7, WInc 7, Inc 7]\<rparr>) \<and>
   unat (2 + 1 :: size_t) = unat (2 :: size_t) + 1"
proof -
  have h2: "block (weak st_two 2) = None \<and> block (weak st_two 1) = Some 7 \<and>
      blocks st_two 7 = Some \<lparr>ref = 2, wref = 2, variant = Default_block, obj = 100\<rparr> \<and>
      ptr (weak st_two 1) = 200 \<and> trace st_two = [Inc 7, WInc 7, WInc 7]"
    by (simp add: st_two_def empty_handle_def)
  have he: "block (weak st_expired 0) = Some 7 \<and>
      blocks st_expired 7 = Some \<lparr>ref = 0, wref = 1, variant = Default_block, obj = 100\<rparr>"
    by (simp add: st_expired_def)
  have m: "(blocks st_two)(7 \<mapsto> \<lparr>ref = 2, wref = 2, variant = Default_block, obj = 100\<rparr>
              \<lparr>ref := 2 + 1\<rparr>) =
           [7 \<mapsto> \<lparr>ref = 3, wref = 2, variant = Default_block, obj = 100\<rparr>]"
    by (simp add: st_two_def)
  from h2 he m
    lock_promotes [where s = st_two and w = 2 and i = 3]
    lock_promotes [where s = st_expired and w = 0 and i = 3 and b = 7
      and cb = "\<lparr>ref = 0, wref = 1, variant = Default_block, obj = 100\<rparr>"]
    lock_promotes [where s = st_two and w = 1 and i = 3 and b = 7
      and cb = "\<lparr>ref = 2, wref = 2, variant = Default_block, obj = 100\<rparr>"]
  show ?thesis by simp
qed

section \<open>Disposal that reaches back into the block\<close>

text \<open>
  Claim C4.  The claim: from its creation with strong count 1, over every sequence of
  increments and decrements, a block disposes of the managed resource exactly once, at
  the instant the strong count goes from 1 to 0, and its storage is deallocated exactly
  once, at the instant both counts are 0.  \<^verbatim>\<open>dec\<close> does not do so when the managed
  object holds the last Weak Handle on its own block, as in \<open>st_node\<close>.  In
  \<^verbatim>\<open>p.reset()\<close> the strong count goes from 1 to 0 and \<^verbatim>\<open>destroy\<close> runs
  \<^verbatim>\<open>delete obj\<close>; the destructor of the object destroys the member \<^verbatim>\<open>self\<close>, whose
  \<^verbatim>\<open>wdec\<close> finds both counts at 0 and executes \<^verbatim>\<open>delete this\<close>.  So the block is
  deallocated while \<^verbatim>\<open>dec\<close> is still running on it: when \<^verbatim>\<open>destroy\<close> returns,
  \<^verbatim>\<open>dec\<close> reads \<^verbatim>\<open>wref\<close> from the deleted block, and the call does not return in a
  defined state; neither does the destructor of \<^verbatim>\<open>p\<close> in place of \<^verbatim>\<open>reset\<close>.
\<close>

theorem dec_reads_block_deleted_in_destroy:
  "blocks st_node 7 = Some \<lparr>ref = 1, wref = 1, variant = Default_block, obj = 100\<rparr> \<and>
   destroy 7 \<lparr>ref = 0, wref = 1, variant = Default_block, obj = 100\<rparr> st_node_disposing =
     Returned st_node_disposed \<and>
   trace st_node_disposed = [WInc 7, Dec 7, Destroy 7, Delete_obj 100, WDec 7, Delete_block 7] \<and>
   blocks st_node_disposed 7 = None \<and>
   cb_dec 7 st_node = Undefined_behaviour \<and>
   sp_reset 0 st_node = Undefined_behaviour \<and>
   sp_dtor 0 st_node = Undefined_behaviour"
  by (simp add: sp_reset_def sp_dtor_def sp_dec_def cb_defs st_node_def st_node_disposing_def
      st_node_disposed_def)

end
